theory Spec2Isabelle
  imports Complex_Main "HOL-Library.Multiset"
begin

section \<open>The genre classifier of script.js\<close>

text \<open>
  A shallow embedding of the feature pipeline and of the inference and display logic of
  \<^verbatim>\<open>src/script.js\<close>. JavaScript numbers are modelled as \<^typ>\<open>real\<close> (no NaN,
  no infinities, no rounding); counts and indices are \<^typ>\<open>nat\<close>. The libraries the
  script calls (essentia.js, TensorFlow.js, Plotly) are not part of the script: what they
  return, or that they throw, is a parameter of the model. An exception is the string of
  its message, and a call that may throw returns \<open>Inl message\<close> or \<open>Inr value\<close>.
\<close>

subsection \<open>Constants\<close>

definition MODEL_EXPECTED_SAMPLE_RATE :: real where
  "MODEL_EXPECTED_SAMPLE_RATE = 22050"

definition MODEL_INPUT_NUM_MELS :: nat where
  "MODEL_INPUT_NUM_MELS = 64"

definition MODEL_INPUT_NUM_FRAMES :: nat where
  "MODEL_INPUT_NUM_FRAMES = 96"

definition GENRE_CLASSES :: "string list" where
  "GENRE_CLASSES =
     [''blues'', ''classical'', ''country'', ''disco'', ''hiphop'',
      ''jazz'', ''metal'', ''pop'', ''reggae'', ''rock'']"

subsection \<open>The worker: resampling, mel spectrogram, log compression, padding\<close>

type_synonym grid = "real list list"

text \<open>
  \<^verbatim>\<open>padOrTruncate(grid, numFrames, numMels)\<close>. The \<^verbatim>\<open>while\<close> loop that pushes the
  padding row is \<open>pad_loop\<close>; \<^verbatim>\<open>grid.slice(0, numFrames)\<close> is \<^const>\<open>take\<close>.
\<close>

function pad_loop :: "grid \<Rightarrow> real list \<Rightarrow> nat \<Rightarrow> grid" where
  "pad_loop paddedGrid padding numFrames =
     (if length paddedGrid < numFrames
      then pad_loop (paddedGrid @ [padding]) padding numFrames
      else paddedGrid)"
  by pat_completeness auto
termination
  by (relation "measure (\<lambda>(paddedGrid, padding, numFrames). numFrames - length paddedGrid)") auto

declare pad_loop.simps [simp del]

definition padOrTruncate :: "grid \<Rightarrow> nat \<Rightarrow> nat \<Rightarrow> grid" where
  "padOrTruncate grid numFrames numMels =
     (let currentFrames = length grid in
      if currentFrames > numFrames then take numFrames grid
      else if currentFrames < numFrames then
        (let paddedGrid = grid;
             padding = replicate numMels (- 60)
         in pad_loop paddedGrid padding numFrames)
      else grid)"

text \<open>
  The essentia.js object of the worker. \<open>Resample\<close> takes the signal, the input rate and
  the output rate; \<open>MelSpectrogram\<close> takes the signal, the sample rate, the frame size, the
  hop size, the number of bands, the filter type, the area type, the low and high bounds
  and the htk argument, and returns the rows of \<^verbatim>\<open>melbands\<close>.
\<close>

record essentia =
  Resample :: "real list \<Rightarrow> real \<Rightarrow> real \<Rightarrow> string + real list"
  MelSpectrogram ::
    "real list \<Rightarrow> real \<Rightarrow> nat \<Rightarrow> nat \<Rightarrow> nat \<Rightarrow> string \<Rightarrow> string \<Rightarrow> real \<Rightarrow> real \<Rightarrow> real
       \<Rightarrow> string + grid"

text \<open>Step 2 of the worker: the resampler is called only when the two rates differ.\<close>

definition resampledVector :: "essentia \<Rightarrow> real list \<Rightarrow> real \<Rightarrow> real \<Rightarrow> string + real list" where
  "resampledVector E audioVector sampleRate targetSr =
     (if sampleRate \<noteq> targetSr then Resample E audioVector sampleRate targetSr
      else Inr audioVector)"

text \<open>Step 4: \<^verbatim>\<open>frame.map(val => 10 * Math.log10(val + 1e-6))\<close>, and the loop over the rows.\<close>

definition logFrame :: "real list \<Rightarrow> real list" where
  "logFrame frame = map (\<lambda>val. 10 * log 10 (val + 1 / 1000000)) frame"

function log_loop :: "grid \<Rightarrow> nat \<Rightarrow> grid \<Rightarrow> grid" where
  "log_loop melbands i melSpecGrid =
     (if i < length melbands
      then log_loop melbands (Suc i) (melSpecGrid @ [logFrame (melbands ! i)])
      else melSpecGrid)"
  by pat_completeness auto
termination
  by (relation "measure (\<lambda>(melbands, i, melSpecGrid). length melbands - i)") auto

declare log_loop.simps [simp del]

text \<open>Steps 3 and 4: the mel spectrogram of the resampled signal, log-compressed.\<close>

definition melSpecGrid :: "essentia \<Rightarrow> real list \<Rightarrow> real \<Rightarrow> nat \<Rightarrow> string + grid" where
  "melSpecGrid E resampled targetSr numMels =
     (case MelSpectrogram E resampled targetSr 2048 1024 numMels ''triangle'' ''unit_area''
             0 (targetSr / 2) (1 / 2) of
        Inl e \<Rightarrow> Inl e
      | Inr melbands \<Rightarrow> Inr (log_loop melbands 0 []))"

text \<open>
  The messages between the page and the worker, and the \<^verbatim>\<open>'process'\<close> branch of the
  worker's \<^verbatim>\<open>onmessage\<close>. The worker's variable \<^verbatim>\<open>essentia\<close> is unset until the
  \<^verbatim>\<open>'init'\<close> message has been handled; a call on it then throws, and the
  \<^verbatim>\<open>catch\<close> posts the error like any other.
\<close>

datatype worker_request =
    Init string
  | Process "real list" real real nat nat

datatype worker_reply = Ready | Result grid | Error string

definition process :: "essentia option \<Rightarrow> real list \<Rightarrow> real \<Rightarrow> real \<Rightarrow> nat \<Rightarrow> nat \<Rightarrow> worker_reply" where
  "process ess audioData sampleRate targetSr numMels numFrames =
     (case ess of
        None \<Rightarrow> Error ''Cannot read properties of undefined''
      | Some E \<Rightarrow>
          (case resampledVector E audioData sampleRate targetSr of
             Inl e \<Rightarrow> Error e
           | Inr resampled \<Rightarrow>
               (case melSpecGrid E resampled targetSr numMels of
                  Inl e \<Rightarrow> Error e
                | Inr g \<Rightarrow> Result (padOrTruncate g numFrames numMels))))"

subsection \<open>The page: interface state\<close>

text \<open>
  The elements of the page the script writes to: the \<^verbatim>\<open>hidden\<close> class of the results
  section, the loader and the results content, the \<^verbatim>\<open>disabled\<close> flag of the classify
  button, the text of the status message and of the predicted genre, and the chart (the
  labels and values last given to Plotly; \<open>None\<close> when purged).
\<close>

record ui_state =
  resultsSection_hidden :: bool
  loader_hidden :: bool
  resultsContent_hidden :: bool
  classifyBtn_disabled :: bool
  statusMessage :: string
  predictedGenre :: string
  chart :: "(string list \<times> real list) option"

definition updateStatus :: "string \<Rightarrow> ui_state \<Rightarrow> ui_state" where
  "updateStatus message d = d\<lparr>statusMessage := message\<rparr>"

text \<open>\<^verbatim>\<open>message || d\<close> takes the default \<open>d\<close> when the message is the empty string.\<close>

definition setLoading :: "bool \<Rightarrow> string \<Rightarrow> ui_state \<Rightarrow> ui_state" where
  "setLoading isLoading message d =
     (if isLoading then
        updateStatus (if message = [] then ''Processing...'' else message)
          (d\<lparr>resultsSection_hidden := False, loader_hidden := False,
             resultsContent_hidden := True, classifyBtn_disabled := True\<rparr>)
      else
        updateStatus (if message = [] then ''Classification complete.'' else message)
          (d\<lparr>loader_hidden := True, resultsContent_hidden := False,
             classifyBtn_disabled := False\<rparr>))"

definition resetResults :: "ui_state \<Rightarrow> ui_state" where
  "resetResults d =
     d\<lparr>resultsSection_hidden := True, resultsContent_hidden := True, loader_hidden := True,
       predictedGenre := ''...'', chart := None\<rparr>"

subsection \<open>The result ranking and its display\<close>

record ranked =
  genre :: string
  probability :: real

text \<open>
  \<^verbatim>\<open>Array.prototype.sort(compare)\<close> is a stable sort: \<open>a\<close> stays before \<open>b\<close> unless
  \<open>compare(a, b) > 0\<close>. For a consistent comparator every stable sort returns the same
  array; the model is the stable insertion sort.
\<close>

fun insert_by :: "('a \<Rightarrow> 'a \<Rightarrow> real) \<Rightarrow> 'a \<Rightarrow> 'a list \<Rightarrow> 'a list" where
  "insert_by compare a [] = [a]"
| "insert_by compare a (b # bs) =
     (if compare a b > 0 then b # insert_by compare a bs else a # b # bs)"

definition sort_by :: "('a \<Rightarrow> 'a \<Rightarrow> real) \<Rightarrow> 'a list \<Rightarrow> 'a list" where
  "sort_by compare xs = foldr (insert_by compare) xs []"

text \<open>
  \<^verbatim>\<open>GENRE_CLASSES[i] || 'Unknown'\<close>: an index past the list reads \<^verbatim>\<open>undefined\<close>, which
  like the empty string gives the default.
\<close>

definition genre_of :: "nat \<Rightarrow> string" where
  "genre_of i =
     (if i < length GENRE_CLASSES \<and> GENRE_CLASSES ! i \<noteq> [] then GENRE_CLASSES ! i
      else ''Unknown'')"

text \<open>The constant \<^verbatim>\<open>results\<close> of \<^verbatim>\<open>displayResults\<close>: the pairs, and their ranking.\<close>

definition pairs :: "real list \<Rightarrow> ranked list" where
  "pairs probabilities =
     map (\<lambda>(prob, i). \<lparr>genre = genre_of i, probability = prob\<rparr>)
       (zip probabilities [0..<length probabilities])"

definition results :: "real list \<Rightarrow> ranked list" where
  "results probabilities = sort_by (\<lambda>a b. probability b - probability a) (pairs probabilities)"

text \<open>
  \<^verbatim>\<open>drawChart\<close> hands the labels and values to Plotly, which is taken to draw them
  without throwing; the bar captions Plotly formats from the values are not modelled.
\<close>

definition drawChart :: "string list \<Rightarrow> real list \<Rightarrow> ui_state \<Rightarrow> ui_state" where
  "drawChart labels values d = d\<lparr>chart := Some (labels, values)\<rparr>"

text \<open>
  \<^verbatim>\<open>displayResults\<close>. With no probabilities \<^verbatim>\<open>results[0]\<close> is \<^verbatim>\<open>undefined\<close> and
  reading its \<^verbatim>\<open>genre\<close> throws, before anything is written to the page.
\<close>

definition displayResults :: "real list \<Rightarrow> ui_state \<Rightarrow> string + ui_state" where
  "displayResults probabilities d =
     (case results probabilities of
        [] \<Rightarrow> Inl ''Cannot read properties of undefined''
      | topGenre # rest \<Rightarrow>
          (let top5 = take 5 (topGenre # rest);
               labels = map genre top5;
               values = map (\<lambda>r. probability r * 100) top5
           in Inr (setLoading False []
                (drawChart labels values (d\<lparr>predictedGenre := genre topGenre\<rparr>)))))"

subsection \<open>The page: classifier, clip and orchestration\<close>

text \<open>
  The classifier and TensorFlow.js are opaque. For a feature grid, building the input
  tensor (\<^verbatim>\<open>tf.tensor(features).reshape([1, 96, 64, 1])\<close>) throws, or
  \<^verbatim>\<open>model.predict\<close> throws, or it returns a prediction tensor whose \<^verbatim>\<open>data()\<close> is
  rejected, or one whose data is the probability vector.
\<close>

datatype predict_outcome =
    TensorThrows string
  | PredictThrows string
  | DataRejects string
  | Probabilities "real list"

type_synonym classifier = "grid \<Rightarrow> predict_outcome"

text \<open>What \<^verbatim>\<open>loadModel\<close> meets: the load fails, the warm-up prediction fails, or both pass.\<close>

datatype load_outcome = LoadFails | WarmupFails classifier | Loaded classifier

record audio_buffer =
  channelData0 :: "real list"
  buffer_sampleRate :: real

text \<open>The two tensors \<^verbatim>\<open>runInference\<close> names.\<close>

datatype tensor = InputTensor | Prediction

text \<open>
  The script's variables \<^verbatim>\<open>model\<close> and \<^verbatim>\<open>currentAudioBuffer\<close> (unset is \<open>None\<close>),
  the page, the messages posted to the worker (oldest first) and the tensors that have
  been created and not yet disposed.
\<close>

record app_state =
  page :: ui_state
  model :: "classifier option"
  currentAudioBuffer :: "audio_buffer option"
  posted :: "worker_request list"
  live_tensors :: "tensor list"

text \<open>
  \<^verbatim>\<open>loadModel\<close>. The assignment to \<^verbatim>\<open>model\<close> precedes the warm-up prediction, so a
  failed warm-up leaves the classifier in place. \<^verbatim>\<open>init\<close> creates the worker before it
  calls \<^verbatim>\<open>loadModel\<close>, so the status after a load is the one of the first branch.
\<close>

definition loadModel :: "load_outcome \<Rightarrow> app_state \<Rightarrow> app_state" where
  "loadModel outcome s =
     (case outcome of
        LoadFails \<Rightarrow> s\<lparr>page := updateStatus ''Error: Could not load the ML model.'' (page s)\<rparr>
      | WarmupFails m \<Rightarrow>
          s\<lparr>model := Some m,
            page := updateStatus ''Error: Could not load the ML model.'' (page s)\<rparr>
      | Loaded m \<Rightarrow>
          s\<lparr>model := Some m,
            page := updateStatus ''Model loaded. Essentia.js ready. Select a file or record.''
                     (page s)\<rparr>)"

definition handleClassify :: "app_state \<Rightarrow> app_state" where
  "handleClassify s =
     (case (currentAudioBuffer s, model s) of
        (Some buf, Some m) \<Rightarrow>
          s\<lparr>page := setLoading True ''Extracting features...'' (page s),
            posted := posted s @
              [Process (channelData0 buf) (buffer_sampleRate buf) MODEL_EXPECTED_SAMPLE_RATE
                 MODEL_INPUT_NUM_MELS MODEL_INPUT_NUM_FRAMES]\<rparr>
      | _ \<Rightarrow> s\<lparr>page := updateStatus ''Error: Audio or model not ready.'' (page s)\<rparr>)"

definition create :: "tensor \<Rightarrow> app_state \<Rightarrow> app_state" where
  "create t s = s\<lparr>live_tensors := t # live_tensors s\<rparr>"

definition dispose :: "tensor \<Rightarrow> app_state \<Rightarrow> app_state" where
  "dispose t s = s\<lparr>live_tensors := removeAll t (live_tensors s)\<rparr>"

text \<open>
  The \<^verbatim>\<open>catch\<close> block of \<^verbatim>\<open>runInference\<close>: \<open>assigned\<close> tells whether the variable
  \<^verbatim>\<open>prediction\<close> had been assigned when the exception was thrown.
\<close>

definition catch_block :: "bool \<Rightarrow> app_state \<Rightarrow> app_state" where
  "catch_block assigned s =
     (let s1 = s\<lparr>page := setLoading False ''Inference failed.'' (page s)\<rparr>
      in if assigned then dispose Prediction s1 else s1)"

text \<open>
  \<^verbatim>\<open>runInference\<close>, run to completion (the one \<^verbatim>\<open>await\<close> is not a point where the
  model lets other handlers in).
\<close>

definition runInference :: "grid \<Rightarrow> app_state \<Rightarrow> app_state" where
  "runInference features s =
     (case model s of
        None \<Rightarrow> s\<lparr>page := setLoading False ''Error: Model not loaded.'' (page s)\<rparr>
      | Some m \<Rightarrow>
          (let s1 = s\<lparr>page := setLoading True ''Classifying...'' (page s)\<rparr>;
               s2 = create InputTensor s1
           in case m features of
                TensorThrows e \<Rightarrow> catch_block False s1
              | PredictThrows e \<Rightarrow> catch_block False s2
              | DataRejects e \<Rightarrow> catch_block True (create Prediction s2)
              | Probabilities probabilities \<Rightarrow>
                  (let s3 = dispose Prediction (dispose InputTensor (create Prediction s2))
                   in case displayResults probabilities (page s3) of
                        Inl e \<Rightarrow> catch_block True s3
                      | Inr d \<Rightarrow> s3\<lparr>page := d\<rparr>)))"

text \<open>The page's handler of the worker's messages.\<close>

definition essentiaWorker_onmessage :: "worker_reply \<Rightarrow> app_state \<Rightarrow> app_state" where
  "essentiaWorker_onmessage reply s =
     (case reply of
        Ready \<Rightarrow>
          s\<lparr>page := updateStatus ''Model loaded. Essentia.js ready. Select a file or record.''
                   (page s)\<rparr>
      | Result features \<Rightarrow> runInference features s
      | Error message \<Rightarrow> s\<lparr>page := setLoading False ''Feature extraction failed.'' (page s)\<rparr>)"

subsection \<open>The library behind the worker\<close>

text \<open>
  Modelled from the spec: the number of frames \<^verbatim>\<open>essentia.MelSpectrogram\<close> returns,
  whose code is not in the repository. The spec's Spectrogram Extractor returns
  \<open>floor((len(S) - frame_size) / hop_size) + 1\<close> frames, and no frame for a signal shorter
  than one frame.
\<close>

definition spec_frame_count :: "nat \<Rightarrow> nat \<Rightarrow> nat \<Rightarrow> nat" where
  "spec_frame_count len frame_size hop_size =
     (if len < frame_size then 0 else (len - frame_size) div hop_size + 1)"

text \<open>
  Modelled from the spec: \<^verbatim>\<open>essentia.MelSpectrogram\<close> itself, whose code is not in the
  repository. It never throws; frame \<open>i\<close> is the band energies of the \<open>frameSize\<close> samples
  from \<open>i * hopSize\<close> on. The mel filter bank is the parameter \<open>bands\<close> (from the number of
  bands and the samples of a frame to the energies).
\<close>

definition spec_MelSpectrogram ::
  "(nat \<Rightarrow> real list \<Rightarrow> real list) \<Rightarrow>
   real list \<Rightarrow> real \<Rightarrow> nat \<Rightarrow> nat \<Rightarrow> nat \<Rightarrow> string \<Rightarrow> string \<Rightarrow> real \<Rightarrow> real \<Rightarrow> real
     \<Rightarrow> string + grid" where
  "spec_MelSpectrogram bands S sampleRate frameSize hopSize numberBands type areaType
       lowBound highBound htk =
     Inr (map (\<lambda>i. bands numberBands (take frameSize (drop (i * hopSize) S)))
            [0..<spec_frame_count (length S) frameSize hopSize])"

text \<open>
  Two stand-ins used where an example needs a whole library: a filter bank that puts the
  frame's energy in every band, and a library whose resampler rejects every call and
  whose extractor is the one above.
\<close>

definition flat_bands :: "nat \<Rightarrow> real list \<Rightarrow> real list" where
  "flat_bands numberBands frame = replicate numberBands (sum_list (map (\<lambda>x. x * x) frame))"

definition rejecting_essentia :: essentia where
  "rejecting_essentia =
     \<lparr>Resample = (\<lambda>S r_in r_out. Inl ''InvalidRateError''),
      MelSpectrogram = spec_MelSpectrogram flat_bands\<rparr>"

subsection \<open>Example states of the page\<close>

text \<open>
  The page as \<^verbatim>\<open>handleFile\<close> leaves it once a clip is decoded and drawn (results
  reset, classify button enabled), a clip of 1000 silent samples at 22050 Hz, two
  classifiers (one whose prediction throws, one that returns eleven scores with the
  largest last), and the state with a clip and a classifier in place.
\<close>

definition loaded_page :: ui_state where
  "loaded_page =
     \<lparr>resultsSection_hidden = True, loader_hidden = True, resultsContent_hidden = True,
      classifyBtn_disabled = False, statusMessage = ''Audio loaded. Ready to classify.'',
      predictedGenre = ''...'', chart = None\<rparr>"

definition short_clip :: audio_buffer where
  "short_clip = \<lparr>channelData0 = replicate 1000 0, buffer_sampleRate = 22050\<rparr>"

definition throwing_classifier :: classifier where
  "throwing_classifier features = PredictThrows ''predict failed''"

definition eleven_classifier :: classifier where
  "eleven_classifier features =
     Probabilities [0, 0, 0, 0, 0, 0, 0, 0, 0, 1 / 10, 9 / 10]"

definition ready_state :: "classifier option \<Rightarrow> app_state" where
  "ready_state m =
     \<lparr>page = loaded_page, model = m, currentAudioBuffer = Some short_clip,
      posted = [], live_tensors = []\<rparr>"

text \<open>The grid of 96 rows of 64 times -60 the worker sends for a clip with no frame.\<close>

definition floor_grid :: grid where
  "floor_grid = replicate MODEL_INPUT_NUM_FRAMES (replicate MODEL_INPUT_NUM_MELS (- 60))"

section \<open>Properties\<close>

subsection \<open>The frame normalizer\<close>

lemma pad_loop_eq: "pad_loop g p n = g @ replicate (n - length g) p"
proof (induction g p n rule: pad_loop.induct)
  case (1 paddedGrid padding numFrames)
  show ?case
  proof (cases "length paddedGrid < numFrames")
    case True
    then have "numFrames - length paddedGrid = Suc (numFrames - Suc (length paddedGrid))"
      by simp
    with True "1.IH" show ?thesis
      by (subst pad_loop.simps) (simp add: replicate_app_Cons_same)
  next
    case False
    then show ?thesis
      by (subst pad_loop.simps) simp
  qed
qed

lemma padOrTruncate_eq:
  "padOrTruncate g n m = take n g @ replicate (n - length g) (replicate m (- 60))"
  by (simp add: padOrTruncate_def Let_def pad_loop_eq)

text \<open>
  C1, as the claim states it, fails in one part: the padding rows are not rows of
  \<open>numFrames\<close> copies of \<open>-60\<close>. Padding the empty grid to two frames of one mel band gives
  two rows of one \<open>-60\<close> each, not rows of two.
\<close>

theorem padOrTruncate_row_width_counterexample:
  "padOrTruncate [] 2 1 = [[- 60], [- 60]] \<and>
   drop 0 (padOrTruncate [] 2 1) \<noteq> replicate (2 - 0) (replicate 2 (- 60))"
  by (simp add: padOrTruncate_eq numeral_2_eq_2)

text \<open>
  C1 (amended): for a grid of \<open>F\<close> frames and a target of \<open>N\<close> frames, \<open>padOrTruncate\<close>
  returns exactly \<open>N\<close> frames; if \<open>F \<ge> N\<close> its first \<open>N\<close> rows are the first \<open>N\<close> rows of the
  grid; if \<open>F < N\<close> its first \<open>F\<close> rows are the grid and each of the other \<open>N - F\<close> rows is
  \<open>numMels\<close> copies of \<open>-60\<close> (one per mel band); if \<open>F = N\<close> the grid is returned unchanged.
\<close>

theorem padOrTruncate_frames:
  "length (padOrTruncate g n m) = n \<and>
   (n \<le> length g \<longrightarrow> take n (padOrTruncate g n m) = take n g) \<and>
   (length g < n \<longrightarrow>
      take (length g) (padOrTruncate g n m) = g \<and>
      drop (length g) (padOrTruncate g n m) = replicate (n - length g) (replicate m (- 60))) \<and>
   (length g = n \<longrightarrow> padOrTruncate g n m = g)"
  by (simp add: padOrTruncate_eq)

theorem padOrTruncate_frames_witness:
  "(2 \<le> length [[1, 2], [3, 4], [5, 6 :: real]] \<and>
    length (padOrTruncate [[1, 2], [3, 4], [5, 6]] 2 2) = 2 \<and>
    take 2 (padOrTruncate [[1, 2], [3, 4], [5, 6]] 2 2) = [[1, 2], [3, 4]]) \<and>
   (length [[1, 2 :: real]] < 3 \<and>
    length (padOrTruncate [[1, 2]] 3 2) = 3 \<and>
    take 1 (padOrTruncate [[1, 2]] 3 2) = [[1, 2]] \<and>
    drop 1 (padOrTruncate [[1, 2]] 3 2) = [[- 60, - 60], [- 60, - 60]]) \<and>
   (length [[1, 2], [3, 4 :: real]] = 2 \<and>
    padOrTruncate [[1, 2], [3, 4]] 2 2 = [[1, 2], [3, 4]])"
  using padOrTruncate_frames [of "[[1, 2], [3, 4], [5, 6]]" 2 2]
    padOrTruncate_frames [of "[[1, 2]]" 3 2]
    padOrTruncate_frames [of "[[1, 2], [3, 4]]" 2 2]
  by (simp add: numeral_2_eq_2 numeral_3_eq_3)

subsection \<open>The result ranker\<close>

lemma insert_by_insort:
  "insert_by (\<lambda>a b. f b - f a) x ys = insort_key (\<lambda>r. - f r) x ys"
  by (induction ys) auto

lemma sort_by_sort_key:
  "sort_by (\<lambda>a b. f b - (f a :: real)) xs = sort_key (\<lambda>r. - f r) xs"
  by (induction xs) (simp_all add: sort_by_def insert_by_insort)

lemma results_sort_key:
  "results ps = sort_key (\<lambda>r. - probability r) (pairs ps)"
  by (simp add: results_def sort_by_sort_key)

lemma zip_upt_map: "zip ps [0..<length ps] = map (\<lambda>i. (ps ! i, i)) [0..<length ps]"
  by (rule nth_equalityI) simp_all

lemma pairs_indexed:
  "pairs ps = map (\<lambda>i. \<lparr>genre = genre_of i, probability = ps ! i\<rparr>) [0..<length ps]"
  by (simp add: pairs_def zip_upt_map)

lemma probability_pairs: "map probability (pairs ps) = ps"
  by (simp add: pairs_indexed comp_def map_nth)

lemma insort_key_image:
  "insort_key f (g x) (map g ys) = map g (insort_key (\<lambda>y. f (g y)) x ys)"
  by (induction ys) simp_all

lemma sort_key_image: "sort_key f (map g xs) = map g (sort_key (\<lambda>y. f (g y)) xs)"
  by (induction xs) (simp_all add: insort_key_image)

lemma insort_key_tie_order:
  fixes f :: "nat \<Rightarrow> real"
  assumes "sorted_wrt (\<lambda>i j. f i < f j \<or> (f i = f j \<and> i < j)) ys"
    and "\<forall>y \<in> set ys. x < y"
  shows "sorted_wrt (\<lambda>i j. f i < f j \<or> (f i = f j \<and> i < j)) (insort_key f x ys)"
  using assms
proof (induction ys)
  case Nil
  then show ?case by simp
next
  case (Cons y ys)
  show ?case
  proof (cases "f x \<le> f y")
    case True
    have "f x < f z \<or> (f x = f z \<and> x < z)" if "z \<in> set (y # ys)" for z
    proof -
      have "f y \<le> f z" using that Cons.prems(1) by auto
      moreover have "x < z" using that Cons.prems(2) by auto
      ultimately show ?thesis using True by auto
    qed
    with True Cons.prems(1) show ?thesis by simp
  next
    case False
    have "sorted_wrt (\<lambda>i j. f i < f j \<or> (f i = f j \<and> i < j)) (insort_key f x ys)"
      using Cons by simp
    moreover have "f y < f z \<or> (f y = f z \<and> y < z)" if "z \<in> set (insort_key f x ys)" for z
      using that False Cons.prems(1) by (auto simp: set_insort_key)
    ultimately show ?thesis using False by simp
  qed
qed

lemma sort_key_tie_order:
  fixes f :: "nat \<Rightarrow> real"
  assumes "sorted_wrt (<) xs"
  shows "sorted_wrt (\<lambda>i j. f i < f j \<or> (f i = f j \<and> i < j)) (sort_key f xs)"
  using assms
proof (induction xs)
  case Nil
  then show ?case by simp
next
  case (Cons x xs)
  then show ?case by (simp add: insort_key_tie_order)
qed

lemma length_results: "length (results ps) = length ps"
  by (simp add: results_sort_key pairs_indexed)

lemma results_indices:
  "\<exists>idx. mset idx = mset [0..<length ps] \<and>
      results ps = map (\<lambda>i. \<lparr>genre = genre_of i, probability = ps ! i\<rparr>) idx \<and>
      sorted_wrt (\<lambda>i j. ps ! j < ps ! i \<or> (ps ! i = ps ! j \<and> i < j)) idx"
proof -
  define idx where "idx = sort_key (\<lambda>i. - (ps ! i)) [0..<length ps]"
  have "mset idx = mset [0..<length ps]"
    by (simp add: idx_def)
  moreover have "results ps = map (\<lambda>i. \<lparr>genre = genre_of i, probability = ps ! i\<rparr>) idx"
    by (simp add: results_sort_key pairs_indexed sort_key_image idx_def)
  moreover have "sorted_wrt (\<lambda>i j. ps ! j < ps ! i \<or> (ps ! i = ps ! j \<and> i < j)) idx"
    using sort_key_tie_order [of "[0..<length ps]" "\<lambda>i. - (ps ! i)"]
    by (simp add: idx_def)
  ultimately show ?thesis by blast
qed

text \<open>
  C5: for every probability vector the ranking has the length of the vector, is sorted
  non-increasing by score, keeps entries of equal score in the order of the input (that
  is, by ascending label index), and is a permutation of the input pairs, so the sum of
  the scores is unchanged. The last conjunct gives the ranking as the list of label
  indices it visits: a permutation of all indices, by descending score and, on equal
  scores, ascending index.
\<close>

theorem results_ranking:
  "length (results ps) = length ps \<and>
   sorted_wrt (\<lambda>a b. probability a \<ge> probability b) (results ps) \<and>
   filter (\<lambda>r. probability r = p) (results ps) = filter (\<lambda>r. probability r = p) (pairs ps) \<and>
   mset (results ps) = mset (pairs ps) \<and>
   sum_list (map probability (results ps)) = sum_list ps \<and>
   (\<exists>idx. mset idx = mset [0..<length ps] \<and>
      results ps = map (\<lambda>i. \<lparr>genre = genre_of i, probability = ps ! i\<rparr>) idx \<and>
      sorted_wrt (\<lambda>i j. ps ! j < ps ! i \<or> (ps ! i = ps ! j \<and> i < j)) idx)"
proof -
  have "sorted (map (\<lambda>r. - probability r) (results ps))"
    by (simp add: results_sort_key)
  then have srt: "sorted_wrt (\<lambda>a b. probability a \<ge> probability b) (results ps)"
    by (simp add: sorted_map)
  have "filter (\<lambda>r. - probability r = - p) (results ps) =
        filter (\<lambda>r. - probability r = - p) (pairs ps)"
    unfolding results_sort_key by (rule sort_key_stable)
  then have stable: "filter (\<lambda>r. probability r = p) (results ps) =
                     filter (\<lambda>r. probability r = p) (pairs ps)"
    by simp
  have perm: "mset (results ps) = mset (pairs ps)"
    by (simp add: results_sort_key)
  have "sum_list (map probability (results ps)) =
        sum_mset (image_mset probability (mset (results ps)))"
    by (metis mset_map sum_mset_sum_list)
  also have "\<dots> = sum_mset (image_mset probability (mset (pairs ps)))"
    by (simp add: perm)
  also have "\<dots> = sum_list (map probability (pairs ps))"
    by (metis mset_map sum_mset_sum_list)
  finally have total: "sum_list (map probability (results ps)) = sum_list ps"
    by (simp add: probability_pairs)
  from length_results srt stable perm total results_indices show ?thesis
    by blast
qed

lemma results_Nil_iff: "results ps = [] \<longleftrightarrow> ps = []"
  using length_results [of ps] by (metis length_0_conv)

lemma displayResults_nonempty:
  assumes "ps \<noteq> []"
  shows "displayResults ps d =
     Inr (setLoading False []
       (drawChart (map genre (take 5 (results ps)))
          (map (\<lambda>r. probability r * 100) (take 5 (results ps)))
          (d\<lparr>predictedGenre := genre (hd (results ps))\<rparr>)))"
proof -
  from assms obtain top rest where "results ps = top # rest"
    by (meson results_Nil_iff list.exhaust)
  then show ?thesis
    by (simp add: displayResults_def Let_def)
qed

lemma genre_of_past_labels: "length GENRE_CLASSES \<le> i \<Longrightarrow> genre_of i = ''Unknown''"
  by (simp add: genre_of_def)

lemma top_of_results:
  assumes "i < length ps" and "\<forall>j<length ps. j \<noteq> i \<longrightarrow> ps ! j < ps ! i"
  shows "hd (results ps) = \<lparr>genre = genre_of i, probability = ps ! i\<rparr>"
proof -
  obtain idx where perm: "mset idx = mset [0..<length ps]"
    and res: "results ps = map (\<lambda>i. \<lparr>genre = genre_of i, probability = ps ! i\<rparr>) idx"
    and srt: "sorted_wrt (\<lambda>i j. ps ! j < ps ! i \<or> (ps ! i = ps ! j \<and> i < j)) idx"
    using results_indices by blast
  from perm have set_idx: "set idx = {0..<length ps}"
    by (metis mset_eq_setD set_upt)
  with assms(1) have "idx \<noteq> []" by auto
  then obtain k rest where idx: "idx = k # rest" by (cases idx) auto
  have "k = i"
  proof (rule ccontr)
    assume "k \<noteq> i"
    with set_idx assms(1) idx have "i \<in> set rest" by auto
    with srt idx have "ps ! i < ps ! k \<or> (ps ! k = ps ! i \<and> k < i)" by auto
    moreover have "k < length ps" using set_idx idx by auto
    ultimately show False using assms(2) \<open>k \<noteq> i\<close> by force
  qed
  with res idx show ?thesis by simp
qed

lemma results_eleven:
  "results [0, 0, 0, 0, 0, 0, 0, 0, 0, 1 / 10, 9 / 10] =
     [\<lparr>genre = ''Unknown'', probability = 9 / 10\<rparr>, \<lparr>genre = ''rock'', probability = 1 / 10\<rparr>,
      \<lparr>genre = ''blues'', probability = 0\<rparr>, \<lparr>genre = ''classical'', probability = 0\<rparr>,
      \<lparr>genre = ''country'', probability = 0\<rparr>, \<lparr>genre = ''disco'', probability = 0\<rparr>,
      \<lparr>genre = ''hiphop'', probability = 0\<rparr>, \<lparr>genre = ''jazz'', probability = 0\<rparr>,
      \<lparr>genre = ''metal'', probability = 0\<rparr>, \<lparr>genre = ''pop'', probability = 0\<rparr>,
      \<lparr>genre = ''reggae'', probability = 0\<rparr>]"
  by (simp add: results_def pairs_def sort_by_def genre_of_def GENRE_CLASSES_def upt_rec_numeral)

text \<open>
  C10: when the probability vector is longer than the ten labels, ranking and display do
  not fail. Every index past the label list gets the label \<open>Unknown\<close>, its pair is in the
  ranking, and \<open>displayResults\<close> returns; if such an index holds the strictly largest
  score, \<open>Unknown\<close> is shown as the predicted genre and leads the chart.
\<close>

theorem unknown_labels_ranked:
  assumes "length GENRE_CLASSES \<le> i" and "i < length ps"
  shows "pairs ps ! i = \<lparr>genre = ''Unknown'', probability = ps ! i\<rparr> \<and>
         \<lparr>genre = ''Unknown'', probability = ps ! i\<rparr> \<in> set (results ps) \<and>
         (\<exists>d'. displayResults ps d = Inr d' \<and>
            ((\<forall>j<length ps. j \<noteq> i \<longrightarrow> ps ! j < ps ! i) \<longrightarrow>
               predictedGenre d' = ''Unknown'' \<and>
               (\<exists>labels values. chart d' = Some (''Unknown'' # labels, ps ! i * 100 # values))))"
proof -
  have entry: "pairs ps ! i = \<lparr>genre = ''Unknown'', probability = ps ! i\<rparr>"
    using assms by (simp add: pairs_indexed genre_of_past_labels)
  have "pairs ps ! i \<in> set (pairs ps)"
    using assms(2) by (simp add: pairs_indexed)
  then have "pairs ps ! i \<in> set (results ps)"
    by (simp add: results_sort_key)
  with entry have member: "\<lparr>genre = ''Unknown'', probability = ps ! i\<rparr> \<in> set (results ps)"
    by simp
  from assms(2) have nonempty: "ps \<noteq> []" by auto
  let ?d = "setLoading False []
       (drawChart (map genre (take 5 (results ps)))
          (map (\<lambda>r. probability r * 100) (take 5 (results ps)))
          (d\<lparr>predictedGenre := genre (hd (results ps))\<rparr>))"
  have shown: "displayResults ps d = Inr ?d"
    using nonempty by (rule displayResults_nonempty)
  have "predictedGenre ?d = ''Unknown'' \<and>
        (\<exists>labels values. chart ?d = Some (''Unknown'' # labels, ps ! i * 100 # values))"
    if "\<forall>j<length ps. j \<noteq> i \<longrightarrow> ps ! j < ps ! i"
  proof -
    have top: "hd (results ps) = \<lparr>genre = ''Unknown'', probability = ps ! i\<rparr>"
      using top_of_results [OF assms(2) that] assms(1) by (simp add: genre_of_past_labels)
    from nonempty obtain r rest where "results ps = r # rest"
      by (meson results_Nil_iff list.exhaust)
    with top show ?thesis
      by (simp add: setLoading_def updateStatus_def drawChart_def)
  qed
  with entry member shown show ?thesis by blast
qed

theorem unknown_labels_ranked_witness:
  "length GENRE_CLASSES \<le> 10 \<and>
   10 < length [0, 0, 0, 0, 0, 0, 0, 0, 0, 1 / 10, 9 / 10 :: real] \<and>
   pairs [0, 0, 0, 0, 0, 0, 0, 0, 0, 1 / 10, 9 / 10] ! 10 =
     \<lparr>genre = ''Unknown'', probability = 9 / 10\<rparr> \<and>
   \<lparr>genre = ''Unknown'', probability = 9 / 10\<rparr>
     \<in> set (results [0, 0, 0, 0, 0, 0, 0, 0, 0, 1 / 10, 9 / 10]) \<and>
   displayResults [0, 0, 0, 0, 0, 0, 0, 0, 0, 1 / 10, 9 / 10] loaded_page =
     Inr \<lparr>resultsSection_hidden = True, loader_hidden = True, resultsContent_hidden = False,
          classifyBtn_disabled = False, statusMessage = ''Classification complete.'',
          predictedGenre = ''Unknown'',
          chart = Some ([''Unknown'', ''rock'', ''blues'', ''classical'', ''country''],
                        [90, 10, 0, 0, 0])\<rparr>"
proof -
  have h1: "length GENRE_CLASSES \<le> 10"
    by (simp add: GENRE_CLASSES_def)
  have h2: "10 < length [0, 0, 0, 0, 0, 0, 0, 0, 0, 1 / 10, 9 / 10 :: real]"
    by simp
  note t = unknown_labels_ranked [OF h1 h2, of loaded_page]
  have "displayResults [0, 0, 0, 0, 0, 0, 0, 0, 0, 1 / 10, 9 / 10] loaded_page =
     Inr \<lparr>resultsSection_hidden = True, loader_hidden = True, resultsContent_hidden = False,
          classifyBtn_disabled = False, statusMessage = ''Classification complete.'',
          predictedGenre = ''Unknown'',
          chart = Some ([''Unknown'', ''rock'', ''blues'', ''classical'', ''country''],
                        [90, 10, 0, 0, 0])\<rparr>"
    by (simp add: displayResults_def results_eleven setLoading_def updateStatus_def
        drawChart_def loaded_page_def)
  with h1 h2 t show ?thesis by simp
qed

subsection \<open>The resampling step\<close>

text \<open>
  C6: for every sample sequence \<open>S\<close> and every rate \<open>r\<close>, resampling from \<open>r\<close> to \<open>r\<close>
  returns \<open>S\<close> unchanged: the resampler is not called, and the worker goes on to extract
  the spectrogram of \<open>S\<close> itself.
\<close>

theorem resample_identity:
  "resampledVector E S r r = Inr S \<and>
   process (Some E) S r r numMels numFrames =
     (case melSpecGrid E S r numMels of
        Inl e \<Rightarrow> Error e
      | Inr g \<Rightarrow> Result (padOrTruncate g numFrames numMels))"
  by (simp add: resampledVector_def process_def)

text \<open>
  C4, as the claim states it, fails: with both rates equal to 0, or to -1, the resampling
  step returns the signal and nothing is rejected, even with a library whose resampler
  rejects every call.
\<close>

theorem equal_rates_not_validated_counterexample:
  "resampledVector rejecting_essentia [1 / 2] 0 0 = Inr [1 / 2] \<and>
   resampledVector rejecting_essentia [1 / 2] (- 1) (- 1) = Inr [1 / 2]"
  by (simp add: resampledVector_def)

text \<open>
  C4 (amended): the worker does not check the rates. When the input rate differs from
  the target rate the signal and both rates are handed to the library's resampler, and
  an exception it throws (for a rate that is not positive, or any other) ends the worker's
  run with an error reply that carries the exception's message; when the two rates are
  equal, positive or not, the signal passes through unchanged and nothing is rejected.
\<close>

theorem resampler_rejection_reported:
  "(sampleRate \<noteq> targetSr \<longrightarrow>
      resampledVector E S sampleRate targetSr = Resample E S sampleRate targetSr) \<and>
   (sampleRate \<noteq> targetSr \<and> Resample E S sampleRate targetSr = Inl e \<longrightarrow>
      process (Some E) S sampleRate targetSr numMels numFrames = Error e) \<and>
   (sampleRate = targetSr \<longrightarrow> resampledVector E S sampleRate targetSr = Inr S)"
  by (simp add: resampledVector_def process_def)

theorem resampler_rejection_reported_witness:
  "resampledVector rejecting_essentia [1 / 2] 0 22050 = Inl ''InvalidRateError'' \<and>
   process (Some rejecting_essentia) [1 / 2] 0 22050 64 96 = Error ''InvalidRateError'' \<and>
   resampledVector rejecting_essentia [1 / 2] 0 0 = Inr [1 / 2]"
  using resampler_rejection_reported [of 0 22050 rejecting_essentia "[1 / 2]" "''InvalidRateError''" 64 96]
    resampler_rejection_reported [of 0 0 rejecting_essentia "[1 / 2]" "''InvalidRateError''" 64 96]
  by (simp add: rejecting_essentia_def)

subsection \<open>Log compression\<close>

lemma log_loop_eq: "log_loop melbands i acc = acc @ map logFrame (drop i melbands)"
proof (induction melbands i acc rule: log_loop.induct)
  case (1 melbands i melSpecGrid)
  show ?case
  proof (cases "i < length melbands")
    case True
    then have "drop i melbands = melbands ! i # drop (Suc i) melbands"
      by (simp add: Cons_nth_drop_Suc)
    with True "1.IH" show ?thesis
      by (subst log_loop.simps) simp
  next
    case False
    then show ?thesis
      by (subst log_loop.simps) simp
  qed
qed

lemma log10_floor: "10 * log 10 (0 + 1 / 1000000) = (- 60 :: real)"
proof -
  have "log 10 ((10 :: real) ^ 6) = real 6"
    by (rule log_pow_cancel) simp_all
  moreover have "(10 :: real) ^ 6 = 1000000"
    by simp
  ultimately have "log 10 (1000000 :: real) = 6"
    by simp
  then have "log 10 (1 / 1000000 :: real) = - 6"
    by (simp add: log_divide)
  then show ?thesis by simp
qed

text \<open>
  C7: a mel-band energy of exactly 0 is log-compressed to \<open>10 * log10(0 + 1e-6) = -60\<close>,
  the constant of the padding rows: the compressed row of a silent frame of \<open>m\<close> bands is
  the row \<open>padOrTruncate\<close> pads with.
\<close>

theorem silence_floor_matches_padding:
  "logFrame (replicate m 0) = replicate m (- 60) \<and>
   padOrTruncate [] 1 m = [replicate m (- 60)] \<and>
   padOrTruncate [] 1 m = [logFrame (replicate m 0)]"
  using log10_floor by (simp add: logFrame_def padOrTruncate_eq)

subsection \<open>Inference and its tensors\<close>

lemma runInference_tensors:
  assumes "model s = Some m"
  shows "live_tensors (runInference features s) =
     (case m features of
        TensorThrows e \<Rightarrow> live_tensors s
      | PredictThrows e \<Rightarrow> InputTensor # live_tensors s
      | DataRejects e \<Rightarrow> InputTensor # removeAll Prediction (live_tensors s)
      | Probabilities ps \<Rightarrow> removeAll Prediction (removeAll InputTensor (live_tensors s)))"
  using assms
  by (simp add: runInference_def catch_block_def create_def dispose_def Let_def
      split: predict_outcome.splits sum.splits)

text \<open>
  C2: the claim is that the input tensor and the prediction tensor are released on every
  exit path of \<open>runInference\<close>. The code releases both when the prediction succeeds, but
  its \<^verbatim>\<open>catch\<close> block disposes of the prediction only: when the predict call throws
  on the 96 by 64 grid, the input tensor is still allocated after \<open>runInference\<close> has
  returned.
\<close>

theorem dropped_input_tensor:
  "live_tensors (ready_state (Some throwing_classifier)) = [] \<and>
   live_tensors (runInference floor_grid (ready_state (Some throwing_classifier))) = [InputTensor]"
  by (simp add: runInference_def ready_state_def throwing_classifier_def
      catch_block_def create_def Let_def)

subsection \<open>The page after a failure\<close>

text \<open>
  C3, as the claim states it, fails: a clip is classified (the eleven scores put
  \<open>Unknown\<close> first), classified again, and the worker reports an error. The results
  section and the results content are then both visible and show the predicted genre and
  the chart of the first attempt: neither hidden nor reset.
\<close>

theorem stale_results_visible_counterexample:
  "page (essentiaWorker_onmessage (Error ''boom'')
     (handleClassify
        (essentiaWorker_onmessage (Result floor_grid)
           (handleClassify (ready_state (Some eleven_classifier)))))) =
     \<lparr>resultsSection_hidden = False, loader_hidden = True, resultsContent_hidden = False,
      classifyBtn_disabled = False, statusMessage = ''Feature extraction failed.'',
      predictedGenre = ''Unknown'',
      chart = Some ([''Unknown'', ''rock'', ''blues'', ''classical'', ''country''],
                    [90, 10, 0, 0, 0])\<rparr>"
  by (simp add: essentiaWorker_onmessage_def handleClassify_def ready_state_def
      runInference_def eleven_classifier_def displayResults_def
      results_eleven create_def dispose_def setLoading_def updateStatus_def drawChart_def
      loaded_page_def short_clip_def Let_def)

text \<open>
  C3 (amended): on every pipeline failure, an extraction error reported by the worker
  or an exception during inference (building the input tensor throws, the predict call throws,
  reading the prediction's data fails, or the probability vector is empty), the loader
  is hidden, the classify button is enabled again and the status message names the
  failure; the results area is not hidden and not reset: the results content is made
  visible, and after an inference failure the results section is visible too.
\<close>

theorem failure_leaves_results_visible:
  "page (essentiaWorker_onmessage (Error message) s) =
     (page s)\<lparr>loader_hidden := True, resultsContent_hidden := False,
       classifyBtn_disabled := False, statusMessage := ''Feature extraction failed.''\<rparr> \<and>
   (model s = Some m \<and>
    (m features = TensorThrows e \<or> m features = PredictThrows e \<or>
     m features = DataRejects e \<or> m features = Probabilities []) \<longrightarrow>
    page (essentiaWorker_onmessage (Result features) s) =
      (page s)\<lparr>resultsSection_hidden := False, loader_hidden := True,
        resultsContent_hidden := False, classifyBtn_disabled := False,
        statusMessage := ''Inference failed.''\<rparr>)"
  by (auto simp: essentiaWorker_onmessage_def runInference_def catch_block_def create_def
      dispose_def setLoading_def updateStatus_def displayResults_def results_def pairs_def
      sort_by_def Let_def)

theorem failure_leaves_results_visible_witness:
  "model (handleClassify (ready_state (Some throwing_classifier))) = Some throwing_classifier \<and>
   throwing_classifier floor_grid = PredictThrows ''predict failed'' \<and>
   page (essentiaWorker_onmessage (Error ''boom'')
           (handleClassify (ready_state (Some throwing_classifier)))) =
     \<lparr>resultsSection_hidden = False, loader_hidden = True, resultsContent_hidden = False,
      classifyBtn_disabled = False, statusMessage = ''Feature extraction failed.'',
      predictedGenre = ''...'', chart = None\<rparr> \<and>
   page (essentiaWorker_onmessage (Result floor_grid)
           (handleClassify (ready_state (Some throwing_classifier)))) =
     \<lparr>resultsSection_hidden = False, loader_hidden = True, resultsContent_hidden = False,
      classifyBtn_disabled = False, statusMessage = ''Inference failed.'',
      predictedGenre = ''...'', chart = None\<rparr>"
  using failure_leaves_results_visible [where message = "''boom''"
      and s = "handleClassify (ready_state (Some throwing_classifier))"
      and m = throwing_classifier and features = floor_grid and e = "''predict failed''"]
  by (simp add: handleClassify_def ready_state_def loaded_page_def throwing_classifier_def
      setLoading_def updateStatus_def short_clip_def)

subsection \<open>Classifying before the classifier is loaded\<close>

text \<open>
  C8: when classify is invoked while the classifier has not been loaded, the only
  change is the status message \<open>Error: Audio or model not ready.\<close>: no loading state is
  entered and no message is sent to the worker (and the guard of \<open>runInference\<close>, should a
  grid arrive in that state, reports \<open>Error: Model not loaded.\<close> without calling the
  classifier, creating a tensor or sending a message). A later successful load is
  accepted and used: with a clip present, the next classify enters the loading state and
  sends the clip to the worker.
\<close>

theorem classify_without_model:
  assumes "model s = None"
  shows "handleClassify s =
           s\<lparr>page := (page s)\<lparr>statusMessage := ''Error: Audio or model not ready.''\<rparr>\<rparr> \<and>
         posted (handleClassify s) = posted s \<and>
         runInference features s =
           s\<lparr>page := setLoading False ''Error: Model not loaded.'' (page s)\<rparr> \<and>
         (currentAudioBuffer s = Some buf \<longrightarrow>
            handleClassify (loadModel (Loaded m) (handleClassify s)) =
              s\<lparr>model := Some m,
                page := setLoading True ''Extracting features...'' (page s),
                posted := posted s @
                  [Process (channelData0 buf) (buffer_sampleRate buf) 22050 64 96]\<rparr>)"
  using assms
  by (auto simp: handleClassify_def loadModel_def runInference_def updateStatus_def
      setLoading_def MODEL_EXPECTED_SAMPLE_RATE_def MODEL_INPUT_NUM_MELS_def
      MODEL_INPUT_NUM_FRAMES_def split: option.splits)

theorem classify_without_model_witness:
  "model (ready_state None) = None \<and>
   currentAudioBuffer (ready_state None) = Some short_clip \<and>
   handleClassify (ready_state None) =
     \<lparr>page = loaded_page\<lparr>statusMessage := ''Error: Audio or model not ready.''\<rparr>,
      model = None, currentAudioBuffer = Some short_clip, posted = [], live_tensors = []\<rparr> \<and>
   handleClassify (loadModel (Loaded eleven_classifier) (handleClassify (ready_state None))) =
     \<lparr>page = loaded_page\<lparr>resultsSection_hidden := False, loader_hidden := False,
               classifyBtn_disabled := True, statusMessage := ''Extracting features...''\<rparr>,
      model = Some eleven_classifier, currentAudioBuffer = Some short_clip,
      posted = [Process (replicate 1000 0) 22050 22050 64 96], live_tensors = []\<rparr>"
  using classify_without_model [where s = "ready_state None" and buf = short_clip
      and m = eleven_classifier]
  by (simp add: ready_state_def handleClassify_def loadModel_def setLoading_def updateStatus_def
      loaded_page_def short_clip_def MODEL_EXPECTED_SAMPLE_RATE_def MODEL_INPUT_NUM_MELS_def
      MODEL_INPUT_NUM_FRAMES_def)

subsection \<open>The spectrogram extractor\<close>

lemma spec_frames:
  "melSpecGrid (E\<lparr>MelSpectrogram := spec_MelSpectrogram bands\<rparr>) S targetSr numMels =
     Inr (map (\<lambda>i. logFrame (bands numMels (take 2048 (drop (i * 1024) S))))
            [0..<spec_frame_count (length S) 2048 1024])"
  by (simp add: melSpecGrid_def spec_MelSpectrogram_def log_loop_eq comp_def)

text \<open>
  C9: with the library's extractor as the spec describes it, the grid extracted from a
  resampled signal \<open>S\<close> has exactly \<open>floor((len(S) - 2048) / 1024) + 1\<close> frames, and no frame
  when \<open>S\<close> is shorter than 2048 samples. In that case the worker still answers with a
  result, the grid of \<open>numFrames\<close> rows of \<open>numMels\<close> times \<open>-60\<close>, and for the 96 by 64 grid
  the page completes the classification whenever the classifier returns a non-empty
  probability vector: the status is \<open>Classification complete.\<close>, the results are shown and
  both tensors are released.
\<close>

theorem extractor_frames:
  "(\<exists>g. melSpecGrid (E\<lparr>MelSpectrogram := spec_MelSpectrogram bands\<rparr>) S targetSr numMels = Inr g \<and>
        length g = (if length S < 2048 then 0 else (length S - 2048) div 1024 + 1)) \<and>
   (resampledVector E audioData sampleRate targetSr = Inr S \<and> length S < 2048 \<longrightarrow>
      process (Some (E\<lparr>MelSpectrogram := spec_MelSpectrogram bands\<rparr>)) audioData sampleRate
          targetSr numMels numFrames =
        Result (replicate numFrames (replicate numMels (- 60)))) \<and>
   (model s = Some m \<and> m floor_grid = Probabilities (p # ps) \<longrightarrow>
      statusMessage (page (essentiaWorker_onmessage (Result floor_grid) s)) =
        ''Classification complete.'' \<and>
      \<not> resultsContent_hidden (page (essentiaWorker_onmessage (Result floor_grid) s)) \<and>
      predictedGenre (page (essentiaWorker_onmessage (Result floor_grid) s)) =
        genre (hd (results (p # ps))) \<and>
      live_tensors (essentiaWorker_onmessage (Result floor_grid) s) =
        removeAll Prediction (removeAll InputTensor (live_tensors s)))"
proof -
  let ?E = "E\<lparr>MelSpectrogram := spec_MelSpectrogram bands\<rparr>"
  have count: "\<exists>g. melSpecGrid ?E S targetSr numMels = Inr g \<and>
        length g = (if length S < 2048 then 0 else (length S - 2048) div 1024 + 1)"
    by (simp add: spec_frames spec_frame_count_def)
  have short: "process (Some ?E) audioData sampleRate targetSr numMels numFrames =
        Result (replicate numFrames (replicate numMels (- 60)))"
    if "resampledVector E audioData sampleRate targetSr = Inr S" and "length S < 2048"
  proof -
    have "resampledVector ?E audioData sampleRate targetSr = Inr S"
      using that(1) by (simp add: resampledVector_def split: if_splits)
    moreover have "melSpecGrid ?E S targetSr numMels = Inr []"
      using that(2) by (simp add: spec_frames spec_frame_count_def)
    ultimately show ?thesis
      by (simp add: process_def padOrTruncate_eq)
  qed
  have completes: "statusMessage (page (essentiaWorker_onmessage (Result floor_grid) s)) =
        ''Classification complete.'' \<and>
      \<not> resultsContent_hidden (page (essentiaWorker_onmessage (Result floor_grid) s)) \<and>
      predictedGenre (page (essentiaWorker_onmessage (Result floor_grid) s)) =
        genre (hd (results (p # ps))) \<and>
      live_tensors (essentiaWorker_onmessage (Result floor_grid) s) =
        removeAll Prediction (removeAll InputTensor (live_tensors s))"
    if "model s = Some m" and "m floor_grid = Probabilities (p # ps)"
  proof -
    have "displayResults (p # ps) d =
        Inr (setLoading False []
          (drawChart (map genre (take 5 (results (p # ps))))
             (map (\<lambda>r. probability r * 100) (take 5 (results (p # ps))))
             (d\<lparr>predictedGenre := genre (hd (results (p # ps)))\<rparr>)))" for d
      by (rule displayResults_nonempty) simp
    with that show ?thesis
      by (simp add: essentiaWorker_onmessage_def runInference_def
          create_def dispose_def setLoading_def updateStatus_def drawChart_def Let_def)
  qed
  from count short completes show ?thesis by blast
qed

theorem extractor_frames_witness:
  "(\<exists>g. melSpecGrid rejecting_essentia (replicate 4096 0) 22050 64 = Inr g \<and> length g = 3) \<and>
   (\<exists>g. melSpecGrid rejecting_essentia (replicate 1000 0) 22050 64 = Inr g \<and> length g = 0) \<and>
   resampledVector rejecting_essentia (replicate 1000 0) 22050 22050 = Inr (replicate 1000 0) \<and>
   process (Some rejecting_essentia) (replicate 1000 0) 22050 22050 64 96 = Result floor_grid \<and>
   model (handleClassify (ready_state (Some eleven_classifier))) = Some eleven_classifier \<and>
   eleven_classifier floor_grid = Probabilities [0, 0, 0, 0, 0, 0, 0, 0, 0, 1 / 10, 9 / 10] \<and>
   statusMessage (page (essentiaWorker_onmessage (Result floor_grid)
      (handleClassify (ready_state (Some eleven_classifier))))) = ''Classification complete.'' \<and>
   predictedGenre (page (essentiaWorker_onmessage (Result floor_grid)
      (handleClassify (ready_state (Some eleven_classifier))))) = ''Unknown'' \<and>
   live_tensors (essentiaWorker_onmessage (Result floor_grid)
      (handleClassify (ready_state (Some eleven_classifier)))) = []"
proof -
  have E: "rejecting_essentia\<lparr>MelSpectrogram := spec_MelSpectrogram flat_bands\<rparr> = rejecting_essentia"
    by (simp add: rejecting_essentia_def)
  have r: "resampledVector rejecting_essentia (replicate 1000 0) 22050 22050 = Inr (replicate 1000 0)"
    by (simp add: resampledVector_def)
  have m: "model (handleClassify (ready_state (Some eleven_classifier))) = Some eleven_classifier"
    by (simp add: handleClassify_def ready_state_def)
  have c: "eleven_classifier floor_grid = Probabilities [0, 0, 0, 0, 0, 0, 0, 0, 0, 1 / 10, 9 / 10]"
    by (simp add: eleven_classifier_def)
  note long = extractor_frames [where E = rejecting_essentia and bands = flat_bands
      and S = "replicate 4096 0" and targetSr = 22050 and numMels = 64]
  note short = extractor_frames [where E = rejecting_essentia and bands = flat_bands
      and S = "replicate 1000 0" and targetSr = 22050 and numMels = 64
      and audioData = "replicate 1000 0" and sampleRate = 22050 and numFrames = 96
      and s = "handleClassify (ready_state (Some eleven_classifier))"
      and m = eleven_classifier and p = 0 and ps = "[0, 0, 0, 0, 0, 0, 0, 0, 1 / 10, 9 / 10]"]
  have l: "live_tensors (handleClassify (ready_state (Some eleven_classifier))) = []"
    by (simp add: handleClassify_def ready_state_def)
  from long short r m c l show ?thesis
    by (simp add: E results_eleven floor_grid_def MODEL_INPUT_NUM_FRAMES_def
        MODEL_INPUT_NUM_MELS_def)
qed

end
